theory Spec2Isabelle
  imports Main "HOL-Library.Sublist"
begin

section \<open>The syntax tree handed over by the parser\<close>

text \<open>
  The checker never parses text itself: \<^verbatim>\<open>ast.parse\<close> gives it a tree, and the code
  inspects that tree with \<^verbatim>\<open>isinstance\<close>, \<^verbatim>\<open>hasattr\<close> and attribute reads. The
  datatypes below are the part of Python's abstract grammar those reads can tell apart.

  Annotation expressions follow the grammar the code was written for, in which the
  \<^verbatim>\<open>slice\<close> of a subscript is an \<^verbatim>\<open>Index(value)\<close>, a \<^verbatim>\<open>Slice\<close> or an \<^verbatim>\<open>ExtSlice\<close>
  node (Python up to 3.8); \<^verbatim>\<open>annotation.slice.value\<close> reads the \<^verbatim>\<open>value\<close> field of
  an \<^verbatim>\<open>Index\<close>. Of all expression nodes only \<^verbatim>\<open>Name\<close> has an attribute \<^verbatim>\<open>id\<close>.
  From Python 3.9 on the parser gives the subscript expression itself as the slice, and
  line 84 then raises for \<^verbatim>\<open>List[int]\<close>; no property below rests on the subscript
  branch of \<^verbatim>\<open>annotation_to_string\<close>.
\<close>

datatype constant_value = Str string | OtherConstant

datatype expr =
    Name string
  | Attribute expr string
  | Subscript expr slice
  | Constant constant_value
  | Tuple "expr list"
  | BinOp expr expr
  | OtherExpr "expr list"
and slice =
    Index expr
  | Slice "expr option" "expr option" "expr option"
  | ExtSlice "slice list"

text \<open>One formal parameter (\<^verbatim>\<open>ast.arg\<close>) and the parameter lists of a function
  (\<^verbatim>\<open>ast.arguments\<close>); the code reads \<^verbatim>\<open>args.args\<close> only.\<close>

record arg =
  arg :: string
  annotation :: "expr option"

record arguments =
  posonlyargs :: "arg list"
  args :: "arg list"
  vararg :: "arg option"
  kwonlyargs :: "arg list"
  kwarg :: "arg option"

datatype import_alias = Alias (alias_name: string) (asname: "string option")

text \<open>
  Statement-level nodes. \<^verbatim>\<open>ImportFrom\<close> carries \<^verbatim>\<open>module\<close> (absent for
  \<^verbatim>\<open>from . import x\<close>), \<^verbatim>\<open>names\<close> and \<^verbatim>\<open>level\<close>. \<open>Other\<close> stands for every
  other node that may hold statements (\<^verbatim>\<open>If\<close>, \<^verbatim>\<open>For\<close>, \<^verbatim>\<open>While\<close>, \<^verbatim>\<open>With\<close>,
  \<^verbatim>\<open>Try\<close>, \<^verbatim>\<open>ExceptHandler\<close>, ...) or none (\<^verbatim>\<open>Pass\<close>, \<^verbatim>\<open>Return\<close>,
  \<^verbatim>\<open>Assign\<close>, ...), with its statement-bearing children in the order of
  \<^verbatim>\<open>ast.iter_child_nodes\<close>. Expression children of statements (decorators, base
  classes, tests, ...) are left out of the walk: no branch of the extraction loop matches
  an expression node, an expression has no statement below it, and dropping them from a
  first-in-first-out queue does not change the relative order of the nodes that remain.
\<close>

datatype node =
    Module "node list"
  | Import "import_alias list"
  | ImportFrom "string option" "import_alias list" nat
  | ClassDef string "node list"
  | FunctionDef string arguments "node list" "expr option"
  | AsyncFunctionDef string arguments "node list" "expr option"
  | Expr expr
  | Other "node list"

fun iter_child_nodes :: "node \<Rightarrow> node list" where
  "iter_child_nodes (Module body) = body"
| "iter_child_nodes (ClassDef nm body) = body"
| "iter_child_nodes (FunctionDef nm a body r) = body"
| "iter_child_nodes (AsyncFunctionDef nm a body r) = body"
| "iter_child_nodes (Other children) = children"
| "iter_child_nodes (Import names) = []"
| "iter_child_nodes (ImportFrom m names lvl) = []"
| "iter_child_nodes (Expr e) = []"

section \<open>The structural record\<close>

text \<open>The dictionaries built by \<^verbatim>\<open>parse_file_structure\<close>, one record per dictionary
  shape; an absent annotation or docstring is Python's \<^verbatim>\<open>None\<close>.\<close>

record ParameterInfo =
  arg_name :: string
  arg_annotation :: "string option"

record FunctionInfo =
  fn_name :: string
  fn_docstring :: "string option"
  fn_args :: "ParameterInfo list"
  fn_returns :: "string option"

record ClassInfo =
  cls_name :: string
  cls_docstring :: "string option"
  cls_methods :: "FunctionInfo list"

record StructuralRecord =
  lines_of_code :: nat
  imports_list :: "string list"
  classes_list :: "ClassInfo list"
  functions_list :: "FunctionInfo list"

datatype error = FileNotFoundError | SyntaxError | AttributeError

section \<open>Rendering an annotation\<close>

fun has_id :: "expr \<Rightarrow> bool" where
  "has_id (Name i) = True"
| "has_id _ = False"

fun the_id :: "expr \<Rightarrow> string" where
  "the_id (Name i) = i"
| "the_id _ = []"

text \<open>
  \<^verbatim>\<open>annotation_to_string\<close>, branch by branch. The attribute branch reads
  \<^verbatim>\<open>annotation.value.id\<close> unguarded, so a value that is not a \<^verbatim>\<open>Name\<close> raises
  \<^verbatim>\<open>AttributeError\<close>. The subscript branch evaluates
  \<^verbatim>\<open>hasattr(annotation.value, 'id') and hasattr(annotation.slice.value, 'id')\<close>:
  when the first test fails the second operand is not evaluated; otherwise
  \<^verbatim>\<open>annotation.slice.value\<close> is read, which raises for a slice without that field.
\<close>

fun annotation_to_string :: "expr option \<Rightarrow> error + string option" where
  "annotation_to_string None = Inr None"
| "annotation_to_string (Some (Name i)) = Inr (Some i)"
| "annotation_to_string (Some (Attribute v attr)) =
     (case v of
        Name i \<Rightarrow> Inr (Some (i @ ''.'' @ attr))
      | _ \<Rightarrow> Inl AttributeError)"
| "annotation_to_string (Some (Subscript v sl)) =
     (if has_id v then
        (case sl of
           Index sv \<Rightarrow>
             if has_id sv then Inr (Some (the_id v @ ''['' @ the_id sv @ '']''))
             else Inr None
         | _ \<Rightarrow> Inl AttributeError)
      else Inr None)"
| "annotation_to_string (Some _) = Inr None"

section \<open>Extraction\<close>

text \<open>
  \<^verbatim>\<open>ast.get_docstring(node)\<close> on a class or function node: the first statement of the
  body, when it is an expression statement holding a string constant, passed through
  \<^verbatim>\<open>inspect.cleandoc\<close>. The latter is library code and is a parameter here.
\<close>

fun get_docstring :: "(string \<Rightarrow> string) \<Rightarrow> node list \<Rightarrow> string option" where
  "get_docstring cleandoc (Expr (Constant (Str s)) # rest) = Some (cleandoc s)"
| "get_docstring cleandoc body = None"

text \<open>The list comprehension over \<^verbatim>\<open>args.args\<close>: one dictionary per parameter, in
  order; the first annotation that raises ends it.\<close>

fun arg_infos :: "arg list \<Rightarrow> error + ParameterInfo list" where
  "arg_infos [] = Inr []"
| "arg_infos (a # as) =
     (case annotation_to_string (annotation a) of
        Inl e \<Rightarrow> Inl e
      | Inr s \<Rightarrow>
          (case arg_infos as of
             Inl e \<Rightarrow> Inl e
           | Inr ps \<Rightarrow> Inr (\<lparr>arg_name = arg a, arg_annotation = s\<rparr> # ps)))"

text \<open>The dictionary \<^verbatim>\<open>function_info\<close> (source lines 58 to 63) and the dictionary
  \<^verbatim>\<open>method_info\<close> (lines 47 to 52), which the source builds by the same expression.\<close>

definition function_info ::
  "(string \<Rightarrow> string) \<Rightarrow> string \<Rightarrow> arguments \<Rightarrow> node list \<Rightarrow> expr option \<Rightarrow> error + FunctionInfo" where
  "function_info cleandoc nm a body r =
     (let doc = get_docstring cleandoc body in
      case arg_infos (args a) of
        Inl e \<Rightarrow> Inl e
      | Inr ps \<Rightarrow>
          (case annotation_to_string r of
             Inl e \<Rightarrow> Inl e
           | Inr ret \<Rightarrow>
               Inr \<lparr>fn_name = nm, fn_docstring = doc, fn_args = ps, fn_returns = ret\<rparr>))"

definition method_info ::
  "(string \<Rightarrow> string) \<Rightarrow> string \<Rightarrow> arguments \<Rightarrow> node list \<Rightarrow> expr option \<Rightarrow> error + FunctionInfo" where
  "method_info cleandoc nm a body r =
     (let doc = get_docstring cleandoc body in
      case arg_infos (args a) of
        Inl e \<Rightarrow> Inl e
      | Inr ps \<Rightarrow>
          (case annotation_to_string r of
             Inl e \<Rightarrow> Inl e
           | Inr ret \<Rightarrow>
               Inr \<lparr>fn_name = nm, fn_docstring = doc, fn_args = ps, fn_returns = ret\<rparr>))"

text \<open>The inner loop over \<^verbatim>\<open>node.body\<close> of a class (lines 45 to 53): every direct
  child that is a \<^verbatim>\<open>FunctionDef\<close> gives one entry of \<^verbatim>\<open>methods\<close>.\<close>

fun class_methods :: "(string \<Rightarrow> string) \<Rightarrow> node list \<Rightarrow> error + FunctionInfo list" where
  "class_methods cleandoc [] = Inr []"
| "class_methods cleandoc (FunctionDef nm a body r # rest) =
     (case method_info cleandoc nm a body r of
        Inl e \<Rightarrow> Inl e
      | Inr m \<Rightarrow>
          (case class_methods cleandoc rest of
             Inl e \<Rightarrow> Inl e
           | Inr ms \<Rightarrow> Inr (m # ms)))"
| "class_methods cleandoc (other # rest) = class_methods cleandoc rest"

text \<open>
  \<^verbatim>\<open>ast.walk\<close>: a queue that starts with the root; the front node is taken, its children
  are put at the back, and the node is yielded. The first loop of the source stores on
  every child a reference to its parent; a node object has one parent, so the model
  pairs every queued node with its parent (\<open>None\<close> for the root, which has no
  \<^verbatim>\<open>parent\<close> attribute).
\<close>

definition with_parent :: "node \<Rightarrow> (node option \<times> node) list" where
  "with_parent n = map (\<lambda>c. (Some n, c)) (iter_child_nodes n)"

text \<open>The number of nodes of a tree: the measure by which the queue shrinks.\<close>

fun node_count :: "node \<Rightarrow> nat" where
  "node_count (Module body) = Suc (sum_list (map node_count body))"
| "node_count (ClassDef nm body) = Suc (sum_list (map node_count body))"
| "node_count (FunctionDef nm a body r) = Suc (sum_list (map node_count body))"
| "node_count (AsyncFunctionDef nm a body r) = Suc (sum_list (map node_count body))"
| "node_count (Other children) = Suc (sum_list (map node_count children))"
| "node_count (Import names) = Suc 0"
| "node_count (ImportFrom m names lvl) = Suc 0"
| "node_count (Expr e) = Suc 0"

function walk_queue :: "(node option \<times> node) list \<Rightarrow> (node option \<times> node) list" where
  "walk_queue [] = []"
| "walk_queue ((p, n) # todo) = (p, n) # walk_queue (todo @ with_parent n)"
  by pat_completeness auto
termination
proof (relation "measure (\<lambda>q. sum_list (map (\<lambda>x. node_count (snd x)) q))")
  show "wf (measure (\<lambda>q. sum_list (map (\<lambda>x. node_count (snd x)) q)))" by simp
next
  fix p n todo
  have "sum_list (map (\<lambda>x. node_count (snd x)) (with_parent n))
          = sum_list (map node_count (iter_child_nodes n))"
    by (simp add: with_parent_def comp_def)
  moreover have "node_count n = Suc (sum_list (map node_count (iter_child_nodes n)))"
    by (cases n) simp_all
  ultimately show "(todo @ with_parent n, (p, n) # todo)
               \<in> measure (\<lambda>q. sum_list (map (\<lambda>x. node_count (snd x)) q))"
    by simp
qed

definition walk :: "node \<Rightarrow> (node option \<times> node) list" where
  "walk tree = walk_queue [(None, tree)]"

fun parent_is_ClassDef :: "node option \<Rightarrow> bool" where
  "parent_is_ClassDef (Some (ClassDef nm body)) = True"
| "parent_is_ClassDef _ = False"

text \<open>The body of the second loop (lines 31 to 64), on one walked node; the three
  lists being appended to are the fields of the record under construction.\<close>

fun visit :: "(string \<Rightarrow> string) \<Rightarrow> StructuralRecord \<Rightarrow> node option \<times> node \<Rightarrow> error + StructuralRecord" where
  "visit cleandoc st (p, Import names) =
     Inr (st\<lparr>imports_list := imports_list st @ map alias_name names\<rparr>)"
| "visit cleandoc st (p, ImportFrom m names lvl) =
     (let module = (case m of None \<Rightarrow> [] | Some s \<Rightarrow> if s \<noteq> [] then s else []) in
      Inr (st\<lparr>imports_list := imports_list st @ map (\<lambda>a. module @ ''.'' @ alias_name a) names\<rparr>))"
| "visit cleandoc st (p, ClassDef nm body) =
     (let doc = get_docstring cleandoc body in
      case class_methods cleandoc body of
        Inl e \<Rightarrow> Inl e
      | Inr ms \<Rightarrow>
          Inr (st\<lparr>classes_list := classes_list st @
                 [\<lparr>cls_name = nm, cls_docstring = doc, cls_methods = ms\<rparr>]\<rparr>))"
| "visit cleandoc st (p, FunctionDef nm a body r) =
     (if \<not> parent_is_ClassDef p then
        (case function_info cleandoc nm a body r of
           Inl e \<Rightarrow> Inl e
         | Inr f \<Rightarrow> Inr (st\<lparr>functions_list := functions_list st @ [f]\<rparr>))
      else Inr st)"
| "visit cleandoc st (p, other) = Inr st"

fun visit_all ::
  "(string \<Rightarrow> string) \<Rightarrow> StructuralRecord \<Rightarrow> (node option \<times> node) list \<Rightarrow> error + StructuralRecord" where
  "visit_all cleandoc st [] = Inr st"
| "visit_all cleandoc st (x # xs) =
     (case visit cleandoc st x of
        Inl e \<Rightarrow> Inl e
      | Inr st' \<Rightarrow> visit_all cleandoc st' xs)"

text \<open>Lines 21 to 71 of \<^verbatim>\<open>parse_file_structure\<close>: from the parsed tree and the line
  count to the returned dictionary.\<close>

definition extract_structure :: "(string \<Rightarrow> string) \<Rightarrow> nat \<Rightarrow> node \<Rightarrow> error + StructuralRecord" where
  "extract_structure cleandoc n tree =
     visit_all cleandoc
       \<lparr>lines_of_code = n, imports_list = [], classes_list = [], functions_list = []\<rparr> (walk tree)"

text \<open>
  \<^verbatim>\<open>read_file\<close> and the head of \<^verbatim>\<open>parse_file_structure\<close>. The file system maps a
  path to the text a text-mode \<^verbatim>\<open>read()\<close> returns; \<^verbatim>\<open>readlines\<close> cuts it after every
  newline. The parser is a parameter: \<open>None\<close> is its \<^verbatim>\<open>SyntaxError\<close>.
\<close>

function readlines :: "string \<Rightarrow> string list" where
  "readlines s =
     (if s = [] then []
      else let line = takeWhile (\<lambda>c. c \<noteq> CHR 0x0A) s;
               rest = dropWhile (\<lambda>c. c \<noteq> CHR 0x0A) s
           in if rest = [] then [line] else (line @ [CHR 0x0A]) # readlines (tl rest))"
  by pat_completeness auto
termination
proof (relation "measure length")
  show "wf (measure length)" by simp
next
  fix s :: string and line rest
  assume "s \<noteq> []" and r: "rest = dropWhile (\<lambda>c. c \<noteq> CHR 0x0A) s" and ne: "rest \<noteq> []"
  have "length (tl rest) < length rest" using ne by (cases rest) auto
  also have "length rest \<le> length s" unfolding r by (rule length_dropWhile_le)
  finally show "(tl rest, s) \<in> measure length" by simp
qed

declare readlines.simps [simp del]

definition parse_file_structure ::
  "(string \<Rightarrow> node option) \<Rightarrow> (string \<Rightarrow> string) \<Rightarrow> (string \<rightharpoonup> string) \<Rightarrow> string
     \<Rightarrow> error + StructuralRecord" where
  "parse_file_structure ast_parse cleandoc files filepath =
     (case files filepath of
        None \<Rightarrow> Inl FileNotFoundError
      | Some text \<Rightarrow>
          (let lines_of_code = length (readlines text) in
           case ast_parse text of
             None \<Rightarrow> Inl SyntaxError
           | Some tree \<Rightarrow> extract_structure cleandoc lines_of_code tree))"

section \<open>Report formatters\<close>

definition quoted :: "string \<Rightarrow> string" where
  "quoted s = [CHR 0x27] @ s @ [CHR 0x27]"

text \<open>\<^verbatim>\<open>sep.join(xs)\<close>\<close>

fun join :: "string \<Rightarrow> string list \<Rightarrow> string" where
  "join sep [] = []"
| "join sep [x] = x"
| "join sep (x # y # ys) = x @ sep @ join sep (y # ys)"

text \<open>Python's truth value of a docstring: \<^verbatim>\<open>None\<close> and the empty string are false.\<close>

fun truthy :: "string option \<Rightarrow> bool" where
  "truthy None = False"
| "truthy (Some s) = (s \<noteq> [])"

text \<open>\<^verbatim>\<open>str(n)\<close> for a line count.\<close>

definition digit_char :: "nat \<Rightarrow> char" where
  "digit_char d = ''0123456789'' ! d"

function str_nat :: "nat \<Rightarrow> string" where
  "str_nat n = (if n < 10 then [digit_char n] else str_nat (n div 10) @ [digit_char (n mod 10)])"
  by pat_completeness auto
termination
  by (relation "measure id") auto

declare str_nat.simps [simp del]

subsection \<open>\<^verbatim>\<open>get_docstring_report\<close>\<close>

definition method_doc_line :: "string \<Rightarrow> FunctionInfo \<Rightarrow> string" where
  "method_doc_line cname m =
     (if truthy (fn_docstring m)
      then ''Method '' @ quoted (fn_name m) @ '' in class '' @ quoted cname @ '': ''
             @ the (fn_docstring m)
      else ''Method '' @ quoted (fn_name m) @ '' in class '' @ quoted cname
             @ '': DocString not found'')"

definition class_doc_lines :: "ClassInfo \<Rightarrow> string list" where
  "class_doc_lines c =
     (if truthy (cls_docstring c)
      then ''Class '' @ quoted (cls_name c) @ '': '' @ the (cls_docstring c)
      else ''Class '' @ quoted (cls_name c) @ '': DocString not found'')
     # map (method_doc_line (cls_name c)) (cls_methods c)"

definition function_doc_line :: "FunctionInfo \<Rightarrow> string" where
  "function_doc_line f =
     (if truthy (fn_docstring f)
      then ''Function '' @ quoted (fn_name f) @ '': '' @ the (fn_docstring f)
      else ''Function '' @ quoted (fn_name f) @ '': DocString not found'')"

definition get_docstring_report :: "StructuralRecord \<Rightarrow> string" where
  "get_docstring_report data =
     join [CHR 0x0A, CHR 0x0A]
       (concat (map class_doc_lines (classes_list data))
        @ map function_doc_line (functions_list data))"

subsection \<open>\<^verbatim>\<open>has_type_annotations\<close> and \<^verbatim>\<open>check_type_annotations\<close>\<close>

fun all_annotated :: "ParameterInfo list \<Rightarrow> bool" where
  "all_annotated [] = True"
| "all_annotated (a # as) = (arg_annotation a \<noteq> None \<and> all_annotated as)"

definition has_type_annotations :: "FunctionInfo \<Rightarrow> bool" where
  "has_type_annotations func =
     (let args_annotated = all_annotated (fn_args func);
          return_annotation = (fn_returns func \<noteq> None)
      in args_annotated \<and> return_annotation)"

text \<open>The two loops that fill \<^verbatim>\<open>missing_annotations\<close>: standalone functions first,
  then the methods class by class.\<close>

fun missing_functions :: "FunctionInfo list \<Rightarrow> string list" where
  "missing_functions [] = []"
| "missing_functions (func # rest) =
     (if \<not> has_type_annotations func
      then (''Function '' @ quoted (fn_name func)) # missing_functions rest
      else missing_functions rest)"

fun missing_methods :: "string \<Rightarrow> FunctionInfo list \<Rightarrow> string list" where
  "missing_methods cname [] = []"
| "missing_methods cname (m # rest) =
     (if \<not> has_type_annotations m
      then (''Method '' @ quoted (fn_name m) @ '' in class '' @ quoted cname)
             # missing_methods cname rest
      else missing_methods cname rest)"

fun missing_in_classes :: "ClassInfo list \<Rightarrow> string list" where
  "missing_in_classes [] = []"
| "missing_in_classes (c # rest) =
     missing_methods (cls_name c) (cls_methods c) @ missing_in_classes rest"

definition missing_annotations :: "StructuralRecord \<Rightarrow> string list" where
  "missing_annotations data =
     missing_functions (functions_list data) @ missing_in_classes (classes_list data)"

definition check_type_annotations :: "StructuralRecord \<Rightarrow> string" where
  "check_type_annotations data =
     (if missing_annotations data \<noteq> []
      then ''Missing Type Annotations:'' @ [CHR 0x0A]
             @ join [CHR 0x0A] (map (\<lambda>item. ''- '' @ item) (missing_annotations data))
      else ''All functions and methods have type annotations.'')"

subsection \<open>\<^verbatim>\<open>check_naming_conventions\<close>\<close>

text \<open>
  The two patterns have the shape \<^verbatim>\<open>^[C1][C2]*$\<close>, tried by \<^verbatim>\<open>re.match\<close> at the
  start of the name. Without the multi-line flag \<^verbatim>\<open>$\<close> matches at the end of the
  string and also just before a newline that ends the string.
\<close>

definition upper :: "char \<Rightarrow> bool" where
  "upper c = (c \<in> set ''ABCDEFGHIJKLMNOPQRSTUVWXYZ'')"

definition lower :: "char \<Rightarrow> bool" where
  "lower c = (c \<in> set ''abcdefghijklmnopqrstuvwxyz'')"

definition digit :: "char \<Rightarrow> bool" where
  "digit c = (c \<in> set ''0123456789'')"

fun match_star_end :: "(char \<Rightarrow> bool) \<Rightarrow> string \<Rightarrow> bool" where
  "match_star_end cls [] = True"
| "match_star_end cls (c # cs) = ((cls c \<and> match_star_end cls cs) \<or> (c = CHR 0x0A \<and> cs = []))"

definition match_class_name :: "string \<Rightarrow> bool" where
  "match_class_name s =
     (case s of
        [] \<Rightarrow> False
      | c # cs \<Rightarrow> upper c \<and> match_star_end (\<lambda>x. lower x \<or> upper x \<or> digit x) cs)"

definition match_function_name :: "string \<Rightarrow> bool" where
  "match_function_name s =
     (case s of
        [] \<Rightarrow> False
      | c # cs \<Rightarrow> (lower c \<or> c = CHR ''_'')
                  \<and> match_star_end (\<lambda>x. lower x \<or> digit x \<or> x = CHR ''_'') cs)"

fun method_issues :: "string \<Rightarrow> FunctionInfo list \<Rightarrow> string list" where
  "method_issues cname [] = []"
| "method_issues cname (m # rest) =
     (if \<not> match_function_name (fn_name m)
      then (''Method '' @ quoted (fn_name m) @ '' in class '' @ quoted cname
              @ '' does not follow snake_case'') # method_issues cname rest
      else method_issues cname rest)"

text \<open>The loop over the classes appends to both lists; each list is followed on its
  own here. \<open>func_issues\<close> gets the methods first, then the standalone functions.\<close>

fun class_issues :: "ClassInfo list \<Rightarrow> string list" where
  "class_issues [] = []"
| "class_issues (c # rest) =
     (if \<not> match_class_name (cls_name c)
      then (''Class '' @ quoted (cls_name c) @ '' does not follow CamelCase'') # class_issues rest
      else class_issues rest)"

fun class_method_issues :: "ClassInfo list \<Rightarrow> string list" where
  "class_method_issues [] = []"
| "class_method_issues (c # rest) =
     method_issues (cls_name c) (cls_methods c) @ class_method_issues rest"

fun function_issues :: "FunctionInfo list \<Rightarrow> string list" where
  "function_issues [] = []"
| "function_issues (func # rest) =
     (if \<not> match_function_name (fn_name func)
      then (''Function '' @ quoted (fn_name func) @ '' does not follow snake_case'')
             # function_issues rest
      else function_issues rest)"

definition func_issues :: "StructuralRecord \<Rightarrow> string list" where
  "func_issues data =
     class_method_issues (classes_list data) @ function_issues (functions_list data)"

definition check_naming_conventions :: "StructuralRecord \<Rightarrow> string" where
  "check_naming_conventions data =
     (if class_issues (classes_list data) = [] \<and> func_issues data = []
      then ''All names adhere to the specified naming convention.''
      else
        (let report_lines =
               (if class_issues (classes_list data) \<noteq> []
                then ''Classes:'' # map (\<lambda>issue. ''- '' @ issue) (class_issues (classes_list data))
                else [])
               @ (if func_issues data \<noteq> []
                  then ''Functions/Methods:'' # map (\<lambda>issue. ''- '' @ issue) (func_issues data)
                  else [])
         in ''Naming Convention Issues:'' @ [CHR 0x0A] @ join [CHR 0x0A] report_lines))"

subsection \<open>\<^verbatim>\<open>generate_file_structure_report\<close> and \<^verbatim>\<open>generate_full_report\<close>\<close>

definition generate_file_structure_report :: "StructuralRecord \<Rightarrow> string" where
  "generate_file_structure_report data =
     join [CHR 0x0A]
       ([''Total lines of code: '' @ str_nat (lines_of_code data)]
        @ (if imports_list data \<noteq> []
           then ''Imports:'' # map (\<lambda>imp. ''- '' @ imp) (imports_list data)
           else [''No imports found.''])
        @ (if classes_list data \<noteq> []
           then ''Classes:'' # map (\<lambda>c. ''- '' @ cls_name c) (classes_list data)
           else [''No classes found.''])
        @ (if functions_list data \<noteq> []
           then ''Functions:'' # map (\<lambda>f. ''- '' @ fn_name f) (functions_list data)
           else [''No standalone functions found.'']))"

definition generate_full_report :: "StructuralRecord \<Rightarrow> string" where
  "generate_full_report data =
     join [CHR 0x0A]
       [''File Structure'',
        generate_file_structure_report data,
        CHR 0x0A # ''Doc Strings'',
        get_docstring_report data,
        CHR 0x0A # ''Type Annotation Check'',
        check_type_annotations data,
        CHR 0x0A # ''Naming Convention Check'',
        check_naming_conventions data]"

section \<open>\<^verbatim>\<open>main\<close>\<close>

text \<open>
  The world \<^verbatim>\<open>main\<close> acts on: the files (a path exists as a regular file when it is
  in the map) and what was printed. \<open>typed\<close> is the stripped answer to the prompt, read
  when the command line does not have exactly one argument. A run ends by returning, by
  \<^verbatim>\<open>sys.exit(1)\<close> or with an exception that nothing catches.
\<close>

record world =
  files :: "string \<rightharpoonup> string"
  stdout :: "string list"

datatype outcome = Returned | Exit nat | Raised error

text \<open>\<^verbatim>\<open>os.path.basename\<close>: what follows the last slash.\<close>

definition basename :: "string \<Rightarrow> string" where
  "basename p = rev (takeWhile (\<lambda>c. c \<noteq> CHR ''/'') (rev p))"

definition main ::
  "(string \<Rightarrow> node option) \<Rightarrow> (string \<Rightarrow> string) \<Rightarrow> string list \<Rightarrow> string \<Rightarrow> world
     \<Rightarrow> outcome \<times> world" where
  "main ast_parse cleandoc argv typed w =
     (let (filepath, w1) =
            (if length argv = 2 then (argv ! 1, w)
             else (typed, w\<lparr>stdout := stdout w @ [''Enter the path to the Python file: '']\<rparr>))
      in if files w1 filepath = None
         then (Exit 1, w1\<lparr>stdout := stdout w1 @ [''File not found. Exiting.'']\<rparr>)
         else
           (case parse_file_structure ast_parse cleandoc (files w1) filepath of
              Inl e \<Rightarrow> (Raised e, w1)
            | Inr data \<Rightarrow>
                (let report = generate_full_report data;
                     filename = basename filepath;
                     report_filename = ''style_report_'' @ filename @ ''.txt''
                 in (Returned,
                     w1\<lparr>files := (files w1)(report_filename \<mapsto> report),
                        stdout := stdout w1 @ [''Style report generated: '' @ report_filename]\<rparr>))))"

section \<open>The sample input of the repository\<close>

text \<open>The tree of \<^verbatim>\<open>test.py\<close>: three imports, \<^verbatim>\<open>ExampleClass\<close> with a docstring and
  three methods, and two standalone functions. \<open>Other []\<close> stands for each simple
  statement of a body.\<close>

definition plain_args :: "arg list \<Rightarrow> arguments" where
  "plain_args as = \<lparr>posonlyargs = [], args = as, vararg = None, kwonlyargs = [], kwarg = None\<rparr>"

definition test_py :: node where
  "test_py =
     Module
       [Import [Alias ''os'' None],
        Import [Alias ''sys'' None],
        ImportFrom (Some ''math'') [Alias ''pi'' None, Alias ''sqrt'' None] 0,
        ClassDef ''ExampleClass''
          [Expr (Constant (Str ''This is an example class with a docstring.'')),
           FunctionDef ''__init__''
             (plain_args [\<lparr>arg = ''self'', annotation = None\<rparr>,
                          \<lparr>arg = ''value'', annotation = Some (Name ''int'')\<rparr>])
             [Expr (Constant (Str ''Initialize with a value.'')), Other []]
             None,
           FunctionDef ''multiply''
             (plain_args [\<lparr>arg = ''self'', annotation = None\<rparr>,
                          \<lparr>arg = ''factor'', annotation = Some (Name ''int'')\<rparr>])
             [Expr (Constant (Str ''Multiply value by a factor.'')), Other []]
             (Some (Name ''int'')),
           FunctionDef ''no_annotation_method''
             (plain_args [\<lparr>arg = ''self'', annotation = None\<rparr>])
             [Other []]
             None],
        FunctionDef ''standalone_function''
          (plain_args [\<lparr>arg = ''x'', annotation = Some (Name ''float'')\<rparr>])
          [Expr (Constant (Str ''Calculate the square root of x.'')), Other []]
          (Some (Name ''float'')),
        FunctionDef ''another_function_without_annotation''
          (plain_args [])
          [Other []]
          None]"

text \<open>The dictionary extraction returns for \<^verbatim>\<open>test.py\<close>, written out.\<close>

definition test_py_record :: "(string \<Rightarrow> string) \<Rightarrow> nat \<Rightarrow> StructuralRecord" where
  "test_py_record cleandoc n =
     \<lparr>lines_of_code = n,
      imports_list = [''os'', ''sys'', ''math.pi'', ''math.sqrt''],
      classes_list =
        [\<lparr>cls_name = ''ExampleClass'',
          cls_docstring = Some (cleandoc ''This is an example class with a docstring.''),
          cls_methods =
            [\<lparr>fn_name = ''__init__'',
              fn_docstring = Some (cleandoc ''Initialize with a value.''),
              fn_args = [\<lparr>arg_name = ''self'', arg_annotation = None\<rparr>,
                         \<lparr>arg_name = ''value'', arg_annotation = Some ''int''\<rparr>],
              fn_returns = None\<rparr>,
             \<lparr>fn_name = ''multiply'',
              fn_docstring = Some (cleandoc ''Multiply value by a factor.''),
              fn_args = [\<lparr>arg_name = ''self'', arg_annotation = None\<rparr>,
                         \<lparr>arg_name = ''factor'', arg_annotation = Some ''int''\<rparr>],
              fn_returns = Some ''int''\<rparr>,
             \<lparr>fn_name = ''no_annotation_method'',
              fn_docstring = None,
              fn_args = [\<lparr>arg_name = ''self'', arg_annotation = None\<rparr>],
              fn_returns = None\<rparr>]\<rparr>],
      functions_list =
        [\<lparr>fn_name = ''standalone_function'',
          fn_docstring = Some (cleandoc ''Calculate the square root of x.''),
          fn_args = [\<lparr>arg_name = ''x'', arg_annotation = Some ''float''\<rparr>],
          fn_returns = Some ''float''\<rparr>,
         \<lparr>fn_name = ''another_function_without_annotation'',
          fn_docstring = None,
          fn_args = [],
          fn_returns = None\<rparr>]\<rparr>"

text \<open>A record with one conforming and one violating name of each kind.\<close>

definition naming_sample :: StructuralRecord where
  "naming_sample =
     \<lparr>lines_of_code = 4, imports_list = [],
      classes_list = [\<lparr>cls_name = ''HTTPServer'', cls_docstring = None, cls_methods = []\<rparr>,
                      \<lparr>cls_name = ''http_server'', cls_docstring = None, cls_methods = []\<rparr>],
      functions_list = [\<lparr>fn_name = ''do_thing'', fn_docstring = None, fn_args = [], fn_returns = None\<rparr>,
                        \<lparr>fn_name = ''DoThing'', fn_docstring = None, fn_args = [], fn_returns = None\<rparr>]\<rparr>"





section \<open>Notions the properties are stated with\<close>

text \<open>
  Kinds and names of declarations; \<open>standalone\<close> is the test of line 57 on a walked
  node; \<open>is_function_info\<close> and \<open>is_class_info\<close> say that a dictionary is the one
  built from a given declaration node. \<open>at_depth d\<close> lists the nodes \<open>d\<close> levels below
  a node from left to right, \<open>level_order\<close> puts the levels one after the other, and
  \<open>source_order\<close> lists a tree in the order of the source text (a node before its
  children, children from first to last).
\<close>

fun is_FunctionDef :: "node \<Rightarrow> bool" where
  "is_FunctionDef (FunctionDef nm a body r) = True"
| "is_FunctionDef _ = False"

fun is_ClassDef :: "node \<Rightarrow> bool" where
  "is_ClassDef (ClassDef nm body) = True"
| "is_ClassDef _ = False"

fun decl_name :: "node \<Rightarrow> string" where
  "decl_name (FunctionDef nm a body r) = nm"
| "decl_name (AsyncFunctionDef nm a body r) = nm"
| "decl_name (ClassDef nm body) = nm"
| "decl_name _ = []"

fun declared_params :: "node \<Rightarrow> string list" where
  "declared_params (FunctionDef nm a body r) = map arg (args a)"
| "declared_params (AsyncFunctionDef nm a body r) = map arg (args a)"
| "declared_params _ = []"

definition standalone :: "node option \<times> node \<Rightarrow> bool" where
  "standalone x = (is_FunctionDef (snd x) \<and> \<not> parent_is_ClassDef (fst x))"

fun is_function_info :: "(string \<Rightarrow> string) \<Rightarrow> node \<Rightarrow> FunctionInfo \<Rightarrow> bool" where
  "is_function_info cleandoc (FunctionDef nm a body r) f = (function_info cleandoc nm a body r = Inr f)"
| "is_function_info cleandoc other f = False"

fun is_class_info :: "(string \<Rightarrow> string) \<Rightarrow> node \<Rightarrow> ClassInfo \<Rightarrow> bool" where
  "is_class_info cleandoc (ClassDef nm body) c =
     (cls_name c = nm \<and> cls_docstring c = get_docstring cleandoc body
      \<and> list_all2 (is_function_info cleandoc) (filter is_FunctionDef body) (cls_methods c))"
| "is_class_info cleandoc other c = False"

fun at_depth :: "nat \<Rightarrow> node option \<Rightarrow> node \<Rightarrow> (node option \<times> node) list" where
  "at_depth 0 p n = [(p, n)]"
| "at_depth (Suc d) p n = concat (map (at_depth d (Some n)) (iter_child_nodes n))"

definition level_order :: "node \<Rightarrow> (node option \<times> node) list" where
  "level_order tree = concat (map (\<lambda>d. at_depth d None tree) [0..<node_count tree])"

fun source_order :: "node option \<Rightarrow> node \<Rightarrow> (node option \<times> node) list" where
  "source_order p (Module body) = (p, Module body) # concat (map (source_order (Some (Module body))) body)"
| "source_order p (ClassDef nm body) =
     (p, ClassDef nm body) # concat (map (source_order (Some (ClassDef nm body))) body)"
| "source_order p (FunctionDef nm a body r) =
     (p, FunctionDef nm a body r) # concat (map (source_order (Some (FunctionDef nm a body r))) body)"
| "source_order p (AsyncFunctionDef nm a body r) =
     (p, AsyncFunctionDef nm a body r)
     # concat (map (source_order (Some (AsyncFunctionDef nm a body r))) body)"
| "source_order p (Other children) =
     (p, Other children) # concat (map (source_order (Some (Other children))) children)"
| "source_order p (Import names) = [(p, Import names)]"
| "source_order p (ImportFrom m names lvl) = [(p, ImportFrom m names lvl)]"
| "source_order p (Expr e) = [(p, Expr e)]"

text \<open>The children of the nodes of a queue, in order: what the walk puts behind the queue
  while it takes these nodes off.\<close>

definition next_level :: "(node option \<times> node) list \<Rightarrow> (node option \<times> node) list" where
  "next_level q = concat (map (\<lambda>x. with_parent (snd x)) q)"






definition nested_in_if :: node where
  "nested_in_if =
     Module
       [Other [FunctionDef ''a'' (plain_args []) [Other []] None],
        FunctionDef ''b'' (plain_args []) [Other []] None]"

definition bare_function :: "string \<Rightarrow> FunctionInfo" where
  "bare_function nm = \<lparr>fn_name = nm, fn_docstring = None, fn_args = [], fn_returns = None\<rparr>"


definition nested_in_if_record :: StructuralRecord where
  "nested_in_if_record =
     \<lparr>lines_of_code = 4, imports_list = [], classes_list = [],
      functions_list = [bare_function ''b'', bare_function ''a'']\<rparr>"

definition with_async :: node where
  "with_async =
     Module
       [AsyncFunctionDef ''fetch'' (plain_args []) [Other []] None,
        ClassDef ''K''
          [AsyncFunctionDef ''run'' (plain_args [\<lparr>arg = ''self'', annotation = None\<rparr>]) [Other []] None,
           FunctionDef ''stop'' (plain_args [\<lparr>arg = ''self'', annotation = None\<rparr>]) [Other []] None]]"

definition with_async_record :: StructuralRecord where
  "with_async_record =
     \<lparr>lines_of_code = 5, imports_list = [],
      classes_list =
        [\<lparr>cls_name = ''K'', cls_docstring = None,
          cls_methods = [\<lparr>fn_name = ''stop'', fn_docstring = None,
                          fn_args = [\<lparr>arg_name = ''self'', arg_annotation = None\<rparr>],
                          fn_returns = None\<rparr>]\<rparr>],
      functions_list = []\<rparr>"

text \<open>A tree without its asynchronous function definitions: each becomes a plain block
  that keeps the body, since the walk still visits what is nested in it.\<close>

fun erase_async :: "node \<Rightarrow> node" where
  "erase_async (Module body) = Module (map erase_async body)"
| "erase_async (ClassDef nm body) = ClassDef nm (map erase_async body)"
| "erase_async (FunctionDef nm a body r) = FunctionDef nm a (map erase_async body) r"
| "erase_async (AsyncFunctionDef nm a body r) = Other (map erase_async body)"
| "erase_async (Other children) = Other (map erase_async children)"
| "erase_async (Import names) = Import names"
| "erase_async (ImportFrom m names lvl) = ImportFrom m names lvl"
| "erase_async (Expr e) = Expr e"

definition erase_pair :: "node option \<times> node \<Rightarrow> node option \<times> node" where
  "erase_pair x = (map_option erase_async (fst x), erase_async (snd x))"


section \<open>Properties of the annotation helper\<close>

text \<open>
  C2. The claim: \<^verbatim>\<open>annotation_to_string\<close> never raises, and a multi-level attribute
  such as \<^verbatim>\<open>a.b.c\<close> is rendered as absent. On the code the attribute branch reads
  \<^verbatim>\<open>annotation.value.id\<close> without the \<^verbatim>\<open>hasattr\<close> test that guards the subscript
  branch: for \<^verbatim>\<open>a.b.c\<close> the value is itself an attribute node, and the call ends in
  \<^verbatim>\<open>AttributeError\<close> instead of returning \<^verbatim>\<open>None\<close>.
\<close>

theorem annotation_to_string_nested_attribute_raises:
  "annotation_to_string (Some (Attribute (Attribute (Name ''a'') ''b'') ''c'')) = Inl AttributeError"
  by simp

section \<open>The walk, level by level\<close>

lemma node_count_children: "node_count n = Suc (sum_list (map node_count (iter_child_nodes n)))"
  by (cases n) simp_all

lemma source_order_children:
  "source_order p n = (p, n) # concat (map (source_order (Some n)) (iter_child_nodes n))"
  by (cases n) simp_all

lemma next_level_simps [simp]:
  "next_level [] = []"
  "next_level (x # q) = with_parent (snd x) @ next_level q"
  "next_level (q @ r) = next_level q @ next_level r"
  by (simp_all add: next_level_def)

lemma walk_queue_append:
  "walk_queue (xs @ ys) = xs @ walk_queue (ys @ next_level xs)"
proof (induction xs arbitrary: ys)
  case Nil
  show ?case by simp
next
  case (Cons x xs)
  obtain p n where x: "x = (p, n)" by (cases x)
  have "walk_queue ((x # xs) @ ys) = x # walk_queue (xs @ (ys @ with_parent n))"
    by (simp add: x)
  also have "\<dots> = x # xs @ walk_queue ((ys @ with_parent n) @ next_level xs)"
    by (simp only: Cons.IH)
  finally show ?case by (simp add: x)
qed

lemma walk_queue_level: "walk_queue q = q @ walk_queue (next_level q)"
  using walk_queue_append [of q "[]"] by simp

lemma walk_queue_levels:
  "walk_queue q = concat (map (\<lambda>d. (next_level ^^ d) q) [0..<k]) @ walk_queue ((next_level ^^ k) q)"
proof (induction k)
  case 0
  show ?case by simp
next
  case (Suc k)
  have "walk_queue ((next_level ^^ k) q)
          = (next_level ^^ k) q @ walk_queue ((next_level ^^ Suc k) q)"
    using walk_queue_level [of "(next_level ^^ k) q"] by simp
  with Suc show ?case by simp
qed

lemma at_depth_Suc_with_parent:
  "at_depth (Suc d) p n = concat (map (\<lambda>x. at_depth d (fst x) (snd x)) (with_parent n))"
  by (simp add: with_parent_def comp_def)

lemma next_level_funpow:
  "(next_level ^^ d) q = concat (map (\<lambda>x. at_depth d (fst x) (snd x)) q)"
proof (induction d arbitrary: q)
  case 0
  show ?case by (induction q) auto
next
  case (Suc d)
  have "(next_level ^^ Suc d) q = (next_level ^^ d) (next_level q)"
    by (simp add: funpow_swap1)
  also have "\<dots> = concat (map (\<lambda>x. at_depth d (fst x) (snd x)) (next_level q))"
    by (rule Suc.IH)
  also have "\<dots> = concat (map (\<lambda>x. at_depth (Suc d) (fst x) (snd x)) q)"
    by (induction q) (simp_all add: at_depth_Suc_with_parent del: at_depth.simps)
  finally show ?case .
qed

lemma child_node_count: "c \<in> set (iter_child_nodes n) \<Longrightarrow> node_count c < node_count n"
proof -
  assume "c \<in> set (iter_child_nodes n)"
  then have "node_count c \<le> sum_list (map node_count (iter_child_nodes n))"
    by (simp add: member_le_sum_list)
  then show ?thesis by (simp add: node_count_children [of n])
qed

lemma at_depth_beyond: "node_count n \<le> d \<Longrightarrow> at_depth d p n = []"
proof (induction d arbitrary: p n)
  case 0
  then show ?case by (simp add: node_count_children [of n])
next
  case (Suc d)
  have "at_depth d (Some n) c = []" if "c \<in> set (iter_child_nodes n)" for c
    using child_node_count [OF that] Suc.prems by (intro Suc.IH) simp
  then show ?case by simp
qed

lemma walk_level_order: "walk tree = level_order tree"
proof -
  have "(next_level ^^ node_count tree) [(None, tree)] = []"
    by (simp add: next_level_funpow at_depth_beyond)
  then have "walk_queue [(None, tree)]
      = concat (map (\<lambda>d. (next_level ^^ d) [(None, tree)]) [0..<node_count tree])"
    using walk_queue_levels [of "[(None, tree)]" "node_count tree"] by simp
  then show ?thesis
    by (simp add: walk_def level_order_def next_level_funpow)
qed

lemma subseq_concat_map:
  "(\<And>x. x \<in> set xs \<Longrightarrow> subseq (f x) (g x)) \<Longrightarrow> subseq (concat (map f xs)) (concat (map g xs))"
  by (induction xs) (auto intro: list_emb_append_mono)

lemma at_depth_source_order: "subseq (at_depth d p n) (source_order p n)"
proof (induction d arbitrary: p n)
  case 0
  show ?case by (simp add: source_order_children [of p n])
next
  case (Suc d)
  have "subseq (concat (map (at_depth d (Some n)) (iter_child_nodes n)))
          (concat (map (source_order (Some n)) (iter_child_nodes n)))"
    by (rule subseq_concat_map) (rule Suc.IH)
  then have "subseq (at_depth (Suc d) p n)
          ((p, n) # concat (map (source_order (Some n)) (iter_child_nodes n)))"
    by (simp add: list_emb_Cons)
  then show ?case
    by (simp only: source_order_children [of p n])
qed

section \<open>The sample input, end to end\<close>

lemma extract_test_py: "extract_structure cleandoc n test_py = Inr (test_py_record cleandoc n)"
  by (simp add: extract_structure_def walk_def test_py_def with_parent_def plain_args_def
        function_info_def method_info_def test_py_record_def)

lemma missing_test_py:
  "missing_annotations (test_py_record cleandoc n) =
     [''Function '' @ quoted ''another_function_without_annotation'',
      ''Method '' @ quoted ''__init__'' @ '' in class '' @ quoted ''ExampleClass'',
      ''Method '' @ quoted ''multiply'' @ '' in class '' @ quoted ''ExampleClass'',
      ''Method '' @ quoted ''no_annotation_method'' @ '' in class '' @ quoted ''ExampleClass'']"
  by (simp add: missing_annotations_def test_py_record_def has_type_annotations_def)

text \<open>
  C1, as the code has it. For \<^verbatim>\<open>test.py\<close> the type-annotation report lists four
  entries: the function \<^verbatim>\<open>another_function_without_annotation\<close> and all three methods
  of \<^verbatim>\<open>ExampleClass\<close>. \<^verbatim>\<open>has_type_annotations\<close> asks an annotation of every entry of
  \<^verbatim>\<open>args.args\<close>, and \<^verbatim>\<open>self\<close> is one of them; \<^verbatim>\<open>__init__\<close> has no return
  annotation either. This holds for every line count and every \<^verbatim>\<open>cleandoc\<close>.
\<close>

theorem test_py_type_annotation_report:
  "map_sum id check_type_annotations (extract_structure cleandoc n test_py) =
     Inr (''Missing Type Annotations:\<newline>'' @
          ''- Function '' @ quoted ''another_function_without_annotation'' @ ''\<newline>'' @
          ''- Method '' @ quoted ''__init__'' @ '' in class '' @ quoted ''ExampleClass'' @ ''\<newline>'' @
          ''- Method '' @ quoted ''multiply'' @ '' in class '' @ quoted ''ExampleClass'' @ ''\<newline>'' @
          ''- Method '' @ quoted ''no_annotation_method'' @ '' in class '' @ quoted ''ExampleClass'')"
  by (simp add: extract_test_py check_type_annotations_def missing_test_py)

text \<open>
  C1, as the claim states it, fails: the entries of the list other than the two the claim
  names are not none, they are the entries of \<^verbatim>\<open>__init__\<close> and \<^verbatim>\<open>multiply\<close>.
\<close>

theorem test_py_report_lists_more_counterexample:
  "map_sum id
     (filter (\<lambda>item. item \<notin>
        {''Method '' @ quoted ''no_annotation_method'' @ '' in class '' @ quoted ''ExampleClass'',
         ''Function '' @ quoted ''another_function_without_annotation''}) \<circ> missing_annotations)
     (extract_structure id 25 test_py)
   = Inr [''Method '' @ quoted ''__init__'' @ '' in class '' @ quoted ''ExampleClass'',
          ''Method '' @ quoted ''multiply'' @ '' in class '' @ quoted ''ExampleClass'']"
  by (simp add: extract_test_py missing_test_py quoted_def)

section \<open>Import rendering\<close>

text \<open>
  C3, as the code has it. \<^verbatim>\<open>import pkg\<close> appends \<^verbatim>\<open>pkg\<close>; \<^verbatim>\<open>from pkg import name\<close>
  appends \<^verbatim>\<open>pkg.name\<close>; \<^verbatim>\<open>from . import name\<close>, whose \<^verbatim>\<open>module\<close> is absent,
  appends \<^verbatim>\<open>.name\<close>: the absent module becomes the empty string and the same format
  with the dot is used. The first three conjuncts are one step of the loop from any
  record, the last is the whole extraction of a module with the three imports.
\<close>

theorem import_rendering:
  "visit cleandoc st (p, Import [Alias pkg a1]) = Inr (st\<lparr>imports_list := imports_list st @ [pkg]\<rparr>)
   \<and> visit cleandoc st (p, ImportFrom (Some pkg) [Alias name a2] lvl)
       = Inr (st\<lparr>imports_list := imports_list st @ [pkg @ ''.'' @ name]\<rparr>)
   \<and> visit cleandoc st (p, ImportFrom None [Alias name a2] lvl)
       = Inr (st\<lparr>imports_list := imports_list st @ [''.'' @ name]\<rparr>)
   \<and> map_sum id imports_list
         (extract_structure cleandoc n
            (Module [Import [Alias pkg a1],
                     ImportFrom (Some pkg) [Alias name a2] 0,
                     ImportFrom None [Alias name a2] 1]))
       = Inr [pkg, pkg @ ''.'' @ name, ''.'' @ name]"
  by (simp add: extract_structure_def walk_def with_parent_def)

text \<open>C3, as the claim states it, fails: for \<^verbatim>\<open>from . import name\<close> the list of imports
  is not the bare \<^verbatim>\<open>name\<close>.\<close>

theorem relative_import_counterexample:
  "map_sum id imports_list
     (extract_structure id 1 (Module [ImportFrom None [Alias ''name'' None] 1]))
   \<noteq> Inr [''name'']"
  by (simp add: extract_structure_def walk_def with_parent_def)

section \<open>The type-annotation check\<close>







section \<open>The naming check\<close>

lemma class_issues_eq:
  "class_issues cs =
     map (\<lambda>c. ''Class '' @ quoted (cls_name c) @ '' does not follow CamelCase'')
       (filter (\<lambda>c. \<not> match_class_name (cls_name c)) cs)"
  by (induction cs) auto

lemma method_issues_eq:
  "method_issues cname ms =
     map (\<lambda>m. ''Method '' @ quoted (fn_name m) @ '' in class '' @ quoted cname
                 @ '' does not follow snake_case'')
       (filter (\<lambda>m. \<not> match_function_name (fn_name m)) ms)"
  by (induction ms) auto

lemma class_method_issues_eq:
  "class_method_issues cs =
     concat (map (\<lambda>c. map (\<lambda>m. ''Method '' @ quoted (fn_name m) @ '' in class ''
                                   @ quoted (cls_name c) @ '' does not follow snake_case'')
                        (filter (\<lambda>m. \<not> match_function_name (fn_name m)) (cls_methods c))) cs)"
  by (induction cs) (auto simp: method_issues_eq)

lemma function_issues_eq:
  "function_issues fs =
     map (\<lambda>f. ''Function '' @ quoted (fn_name f) @ '' does not follow snake_case'')
       (filter (\<lambda>f. \<not> match_function_name (fn_name f)) fs)"
  by (induction fs) auto

lemma match_star_end_no_newline:
  "CHR 0x0A \<notin> set cs \<Longrightarrow> match_star_end cls cs \<longleftrightarrow> (\<forall>x\<in>set cs. cls x)"
  by (induction cs) auto

text \<open>
  C6. A class is flagged exactly when its name does not match the class pattern, a
  method or function exactly when its name does not match the function pattern; on a
  name without a newline the patterns say: an upper-case letter followed by letters and
  digits, and a lower-case letter or underscore followed by lower-case letters, digits
  and underscores. \<^verbatim>\<open>HTTPServer\<close> and \<^verbatim>\<open>do_thing\<close> pass, \<^verbatim>\<open>http_server\<close> as a
  class and \<^verbatim>\<open>DoThing\<close> as a function fail. With no violation the report is the single
  confirmation line; otherwise the violations follow the headings \<^verbatim>\<open>Classes:\<close> and
  \<^verbatim>\<open>Functions/Methods:\<close>, each heading present when its group is not empty.
\<close>

theorem naming_conventions_spec:
  "class_issues (classes_list data) =
     map (\<lambda>c. ''Class '' @ quoted (cls_name c) @ '' does not follow CamelCase'')
       (filter (\<lambda>c. \<not> match_class_name (cls_name c)) (classes_list data))
   \<and> func_issues data =
       concat (map (\<lambda>c. map (\<lambda>m. ''Method '' @ quoted (fn_name m) @ '' in class ''
                                     @ quoted (cls_name c) @ '' does not follow snake_case'')
                          (filter (\<lambda>m. \<not> match_function_name (fn_name m)) (cls_methods c)))
                 (classes_list data))
       @ map (\<lambda>f. ''Function '' @ quoted (fn_name f) @ '' does not follow snake_case'')
           (filter (\<lambda>f. \<not> match_function_name (fn_name f)) (functions_list data))
   \<and> (CHR 0x0A \<notin> set s \<longrightarrow>
        (match_class_name s \<longleftrightarrow>
           (\<exists>c cs. s = c # cs \<and> upper c \<and> (\<forall>x\<in>set cs. lower x \<or> upper x \<or> digit x))))
   \<and> (CHR 0x0A \<notin> set s \<longrightarrow>
        (match_function_name s \<longleftrightarrow>
           (\<exists>c cs. s = c # cs \<and> (lower c \<or> c = CHR ''_'')
                    \<and> (\<forall>x\<in>set cs. lower x \<or> digit x \<or> x = CHR ''_''))))
   \<and> match_class_name ''HTTPServer'' \<and> \<not> match_class_name ''http_server''
   \<and> match_function_name ''do_thing'' \<and> \<not> match_function_name ''DoThing''
   \<and> (class_issues (classes_list data) = [] \<and> func_issues data = [] \<longrightarrow>
        check_naming_conventions data = ''All names adhere to the specified naming convention.'')
   \<and> (\<not> (class_issues (classes_list data) = [] \<and> func_issues data = []) \<longrightarrow>
        check_naming_conventions data =
          ''Naming Convention Issues:\<newline>''
          @ join ''\<newline>''
              ((if class_issues (classes_list data) \<noteq> []
                then ''Classes:'' # map (\<lambda>issue. ''- '' @ issue) (class_issues (classes_list data))
                else [])
               @ (if func_issues data \<noteq> []
                  then ''Functions/Methods:'' # map (\<lambda>issue. ''- '' @ issue) (func_issues data)
                  else [])))"
proof -
  have a: "class_issues (classes_list data) =
     map (\<lambda>c. ''Class '' @ quoted (cls_name c) @ '' does not follow CamelCase'')
       (filter (\<lambda>c. \<not> match_class_name (cls_name c)) (classes_list data))"
    by (rule class_issues_eq)
  have b: "func_issues data =
       concat (map (\<lambda>c. map (\<lambda>m. ''Method '' @ quoted (fn_name m) @ '' in class ''
                                     @ quoted (cls_name c) @ '' does not follow snake_case'')
                          (filter (\<lambda>m. \<not> match_function_name (fn_name m)) (cls_methods c)))
                 (classes_list data))
       @ map (\<lambda>f. ''Function '' @ quoted (fn_name f) @ '' does not follow snake_case'')
           (filter (\<lambda>f. \<not> match_function_name (fn_name f)) (functions_list data))"
    by (simp add: func_issues_def class_method_issues_eq function_issues_eq)
  have c: "CHR 0x0A \<notin> set s \<longrightarrow>
        (match_class_name s \<longleftrightarrow>
           (\<exists>c cs. s = c # cs \<and> upper c \<and> (\<forall>x\<in>set cs. lower x \<or> upper x \<or> digit x)))"
    by (cases s) (simp_all add: match_class_name_def match_star_end_no_newline)
  have d: "CHR 0x0A \<notin> set s \<longrightarrow>
        (match_function_name s \<longleftrightarrow>
           (\<exists>c cs. s = c # cs \<and> (lower c \<or> c = CHR ''_'')
                    \<and> (\<forall>x\<in>set cs. lower x \<or> digit x \<or> x = CHR ''_'')))"
    by (cases s) (simp_all add: match_function_name_def match_star_end_no_newline)
  have e: "match_class_name ''HTTPServer'' \<and> \<not> match_class_name ''http_server''
   \<and> match_function_name ''do_thing'' \<and> \<not> match_function_name ''DoThing''"
    by (simp add: match_class_name_def match_function_name_def upper_def lower_def digit_def)
  have f: "class_issues (classes_list data) = [] \<and> func_issues data = [] \<longrightarrow>
        check_naming_conventions data = ''All names adhere to the specified naming convention.''"
    by (simp add: check_naming_conventions_def)
  have g: "\<not> (class_issues (classes_list data) = [] \<and> func_issues data = []) \<longrightarrow>
        check_naming_conventions data =
          ''Naming Convention Issues:\<newline>''
          @ join ''\<newline>''
              ((if class_issues (classes_list data) \<noteq> []
                then ''Classes:'' # map (\<lambda>issue. ''- '' @ issue) (class_issues (classes_list data))
                else [])
               @ (if func_issues data \<noteq> []
                  then ''Functions/Methods:'' # map (\<lambda>issue. ''- '' @ issue) (func_issues data)
                  else []))"
    by (simp add: check_naming_conventions_def Let_def)
  from a b c d e f g show ?thesis by blast
qed

theorem naming_conventions_spec_witness:
  "check_naming_conventions naming_sample =
     ''Naming Convention Issues:\<newline>Classes:\<newline>- Class '' @ quoted ''http_server''
     @ '' does not follow CamelCase\<newline>Functions/Methods:\<newline>- Function '' @ quoted ''DoThing''
     @ '' does not follow snake_case''
   \<and> check_naming_conventions
        \<lparr>lines_of_code = 1, imports_list = [],
         classes_list = [\<lparr>cls_name = ''HTTPServer'', cls_docstring = None, cls_methods = []\<rparr>],
         functions_list = []\<rparr>
     = ''All names adhere to the specified naming convention.''
   \<and> match_class_name ''HTTPServer''"
  using naming_conventions_spec [of naming_sample "''HTTPServer''"]
        naming_conventions_spec
          [of "\<lparr>lines_of_code = 1, imports_list = [],
                classes_list = [\<lparr>cls_name = ''HTTPServer'', cls_docstring = None, cls_methods = []\<rparr>],
                functions_list = []\<rparr>" "''HTTPServer''"]
  by (simp add: naming_sample_def upper_def lower_def digit_def)

section \<open>Runs that end in a parse error, and repeated runs\<close>

lemma main_writes_only_on_return:
  "fst (main ast_parse cleandoc argv typed w) \<noteq> Returned \<longrightarrow>
     files (snd (main ast_parse cleandoc argv typed w)) = files w"
  by (cases "length argv = 2") (simp_all add: main_def Let_def split: sum.splits)

text \<open>
  C8. When the parser rejects the text of the input file, \<^verbatim>\<open>parse_file_structure\<close>
  ends in \<^verbatim>\<open>SyntaxError\<close> and returns no record, \<^verbatim>\<open>main\<close> ends with that exception,
  and the files are those before the run: no report file was written. The path is the
  command-line argument when there is exactly one, the typed answer otherwise. The
  last conjunct holds for every run: the files change only in a run that returns.
\<close>

theorem parse_error_aborts:
  assumes "files w path = Some text" and "ast_parse text = None"
    and "(if length argv = 2 then argv ! 1 else typed) = path"
  shows "parse_file_structure ast_parse cleandoc (files w) path = Inl SyntaxError
         \<and> fst (main ast_parse cleandoc argv typed w) = Raised SyntaxError
         \<and> files (snd (main ast_parse cleandoc argv typed w)) = files w
         \<and> (fst (main ast_parse' cleandoc' argv' typed' w') \<noteq> Returned \<longrightarrow>
              files (snd (main ast_parse' cleandoc' argv' typed' w')) = files w')"
proof -
  have first: "parse_file_structure ast_parse cleandoc (files w) path = Inl SyntaxError
         \<and> fst (main ast_parse cleandoc argv typed w) = Raised SyntaxError
         \<and> files (snd (main ast_parse cleandoc argv typed w)) = files w"
  proof (cases "length argv = 2")
    case True
    with assms show ?thesis by (simp add: parse_file_structure_def main_def)
  next
    case False
    with assms show ?thesis by (simp add: parse_file_structure_def main_def)
  qed
  have "fst (main ast_parse' cleandoc' argv' typed' w') \<noteq> Returned \<longrightarrow>
          files (snd (main ast_parse' cleandoc' argv' typed' w')) = files w'"
    by (rule main_writes_only_on_return)
  with first show ?thesis by simp
qed

theorem parse_error_aborts_witness:
  "parse_file_structure (\<lambda>t. None) id [''bad.py'' \<mapsto> ''def f(:''] ''bad.py'' = Inl SyntaxError
   \<and> fst (main (\<lambda>t. None) id [''checker'', ''bad.py''] ''''
             \<lparr>files = [''bad.py'' \<mapsto> ''def f(:''], stdout = []\<rparr>) = Raised SyntaxError
   \<and> files (snd (main (\<lambda>t. None) id [''checker'', ''bad.py''] ''''
             \<lparr>files = [''bad.py'' \<mapsto> ''def f(:''], stdout = []\<rparr>)) = [''bad.py'' \<mapsto> ''def f(:'']"
  using parse_error_aborts [of "\<lparr>files = [''bad.py'' \<mapsto> ''def f(:''], stdout = []\<rparr>" "''bad.py''"
          "''def f(:''" "\<lambda>t. None" "[''checker'', ''bad.py'']" "''''" id]
  by simp


lemma str_nat_25: "str_nat 25 = ''25''"
  by code_simp










section \<open>Where the entries of the record come from\<close>

lemma method_info_eq: "method_info cleandoc nm a body r = function_info cleandoc nm a body r"
  by (simp add: method_info_def function_info_def)

lemma class_methods_infos:
  "class_methods cleandoc body = Inr ms \<Longrightarrow>
     list_all2 (is_function_info cleandoc) (filter is_FunctionDef body) ms"
proof (induction cleandoc body arbitrary: ms rule: class_methods.induct)
  case (1 cleandoc)
  then show ?case by simp
next
  case (2 cleandoc nm a body r rest)
  then show ?case
    by (auto simp: method_info_eq split: sum.splits)
qed simp_all

lemma arg_infos_names: "arg_infos as = Inr ps \<Longrightarrow> map arg_name ps = map arg as"
  by (induction as arbitrary: ps) (auto split: sum.splits)

lemma is_function_info_name:
  "is_function_info cleandoc nd f \<Longrightarrow>
     is_FunctionDef nd \<and> fn_name f = decl_name nd \<and> map arg_name (fn_args f) = declared_params nd"
  by (cases nd) (auto simp: function_info_def arg_infos_names split: sum.splits)

lemma is_class_info_name:
  "is_class_info cleandoc nd c \<Longrightarrow> is_ClassDef nd \<and> cls_name c = decl_name nd"
  by (cases nd) auto

lemma visit_effect:
  assumes "visit cleandoc st x = Inr st'"
  shows "\<exists>fs cs. functions_list st' = functions_list st @ fs
           \<and> list_all2 (\<lambda>y. is_function_info cleandoc (snd y)) (filter standalone [x]) fs
           \<and> classes_list st' = classes_list st @ cs
           \<and> list_all2 (\<lambda>y. is_class_info cleandoc (snd y)) (filter (\<lambda>y. is_ClassDef (snd y)) [x]) cs"
proof -
  obtain p n where x: "x = (p, n)" by (cases x)
  show ?thesis
  proof (cases n)
    case (ClassDef nm body)
    with assms x show ?thesis
      by (auto simp: standalone_def class_methods_infos split: sum.splits)
  next
    case (FunctionDef nm a body r)
    with assms x show ?thesis
      by (auto simp: standalone_def split: sum.splits if_splits)
  qed (use assms x in \<open>auto simp: standalone_def Let_def\<close>)
qed

lemma visit_all_effect:
  "visit_all cleandoc st xs = Inr st' \<Longrightarrow>
     \<exists>fs cs. functions_list st' = functions_list st @ fs
           \<and> list_all2 (\<lambda>y. is_function_info cleandoc (snd y)) (filter standalone xs) fs
           \<and> classes_list st' = classes_list st @ cs
           \<and> list_all2 (\<lambda>y. is_class_info cleandoc (snd y)) (filter (\<lambda>y. is_ClassDef (snd y)) xs) cs"
proof (induction xs arbitrary: st)
  case Nil
  then show ?case by simp
next
  case (Cons x xs)
  from Cons.prems obtain st1 where v: "visit cleandoc st x = Inr st1"
    and r: "visit_all cleandoc st1 xs = Inr st'"
    by (auto split: sum.splits)
  from visit_effect [OF v] obtain fs1 cs1 where
    f1: "functions_list st1 = functions_list st @ fs1"
    and l1: "list_all2 (\<lambda>y. is_function_info cleandoc (snd y)) (filter standalone [x]) fs1"
    and c1: "classes_list st1 = classes_list st @ cs1"
    and k1: "list_all2 (\<lambda>y. is_class_info cleandoc (snd y)) (filter (\<lambda>y. is_ClassDef (snd y)) [x]) cs1"
    by blast
  from Cons.IH [OF r] obtain fs2 cs2 where
    f2: "functions_list st' = functions_list st1 @ fs2"
    and l2: "list_all2 (\<lambda>y. is_function_info cleandoc (snd y)) (filter standalone xs) fs2"
    and c2: "classes_list st' = classes_list st1 @ cs2"
    and k2: "list_all2 (\<lambda>y. is_class_info cleandoc (snd y)) (filter (\<lambda>y. is_ClassDef (snd y)) xs) cs2"
    by blast
  have "list_all2 (\<lambda>y. is_function_info cleandoc (snd y)) (filter standalone ([x] @ xs)) (fs1 @ fs2)"
    unfolding filter_append using l1 l2 by (rule list_all2_appendI)
  moreover have "list_all2 (\<lambda>y. is_class_info cleandoc (snd y))
       (filter (\<lambda>y. is_ClassDef (snd y)) ([x] @ xs)) (cs1 @ cs2)"
    unfolding filter_append using k1 k2 by (rule list_all2_appendI)
  ultimately show ?case
    using f1 f2 c1 c2 by (intro exI [of _ "fs1 @ fs2"] exI [of _ "cs1 @ cs2"]) simp
qed

lemma extract_structure_origin:
  assumes "extract_structure cleandoc n tree = Inr data"
  shows "list_all2 (\<lambda>y. is_function_info cleandoc (snd y)) (filter standalone (walk tree))
           (functions_list data)"
    and "list_all2 (\<lambda>y. is_class_info cleandoc (snd y)) (filter (\<lambda>y. is_ClassDef (snd y)) (walk tree))
           (classes_list data)"
  using visit_all_effect [OF assms [unfolded extract_structure_def]] by auto



section \<open>Nesting\<close>







section \<open>Order\<close>

lemma extract_nested_in_if:
  "extract_structure id 4 nested_in_if = Inr nested_in_if_record"
  by (simp add: extract_structure_def walk_def nested_in_if_def with_parent_def plain_args_def
        function_info_def nested_in_if_record_def bare_function_def)

lemma list_all2_map_eq: "list_all2 (\<lambda>x y. f x = g y) xs ys \<Longrightarrow> map f xs = map g ys"
  by (induction rule: list_all2_induct) auto

text \<open>
  C7, as the code has it. The names in \<^verbatim>\<open>functions\<close> and in \<^verbatim>\<open>classes\<close> are those of
  the declarations in level order: all declarations of one nesting depth before those
  of the next, and within one depth in the order of the source text (each level is a
  subsequence of the source order). The methods of a class are the function
  declarations of its body in order, and the parameters of every function and method
  are its declared parameters in order.
\<close>

theorem extraction_order:
  assumes "extract_structure cleandoc n tree = Inr data"
  shows "map fn_name (functions_list data)
           = map (\<lambda>y. decl_name (snd y)) (filter standalone (level_order tree))
       \<and> map cls_name (classes_list data)
           = map (\<lambda>y. decl_name (snd y)) (filter (\<lambda>y. is_ClassDef (snd y)) (level_order tree))
       \<and> list_all2
           (\<lambda>y c. list_all2 (\<lambda>m f. fn_name f = decl_name m \<and> map arg_name (fn_args f) = declared_params m)
                     (filter is_FunctionDef (iter_child_nodes (snd y))) (cls_methods c))
           (filter (\<lambda>y. is_ClassDef (snd y)) (level_order tree)) (classes_list data)
       \<and> list_all2 (\<lambda>y f. map arg_name (fn_args f) = declared_params (snd y))
           (filter standalone (level_order tree)) (functions_list data)
       \<and> (\<forall>d. subseq (at_depth d None tree) (source_order None tree))"
proof -
  have f: "list_all2 (\<lambda>y. is_function_info cleandoc (snd y)) (filter standalone (level_order tree))
             (functions_list data)"
    using extract_structure_origin(1) [OF assms] by (simp only: walk_level_order)
  have c: "list_all2 (\<lambda>y. is_class_info cleandoc (snd y))
             (filter (\<lambda>y. is_ClassDef (snd y)) (level_order tree)) (classes_list data)"
    using extract_structure_origin(2) [OF assms] by (simp only: walk_level_order)
  have "list_all2 (\<lambda>y f. decl_name (snd y) = fn_name f) (filter standalone (level_order tree))
          (functions_list data)"
    using f by (rule list_all2_mono) (simp add: is_function_info_name)
  then have 1: "map fn_name (functions_list data)
           = map (\<lambda>y. decl_name (snd y)) (filter standalone (level_order tree))"
    by (rule list_all2_map_eq [symmetric])
  have "list_all2 (\<lambda>y c. decl_name (snd y) = cls_name c)
          (filter (\<lambda>y. is_ClassDef (snd y)) (level_order tree)) (classes_list data)"
    using c by (rule list_all2_mono) (simp add: is_class_info_name)
  then have 2: "map cls_name (classes_list data)
           = map (\<lambda>y. decl_name (snd y)) (filter (\<lambda>y. is_ClassDef (snd y)) (level_order tree))"
    by (rule list_all2_map_eq [symmetric])
  have m: "list_all2 (\<lambda>m f. fn_name f = decl_name m \<and> map arg_name (fn_args f) = declared_params m)
             (filter is_FunctionDef (iter_child_nodes nd)) (cls_methods k)"
    if "is_class_info cleandoc nd k" for nd k
  proof -
    from that have "list_all2 (is_function_info cleandoc)
        (filter is_FunctionDef (iter_child_nodes nd)) (cls_methods k)"
      by (cases nd) auto
    then show ?thesis
      by (rule list_all2_mono) (simp add: is_function_info_name)
  qed
  have 3: "list_all2
           (\<lambda>y c. list_all2 (\<lambda>m f. fn_name f = decl_name m \<and> map arg_name (fn_args f) = declared_params m)
                     (filter is_FunctionDef (iter_child_nodes (snd y))) (cls_methods c))
           (filter (\<lambda>y. is_ClassDef (snd y)) (level_order tree)) (classes_list data)"
    using c by (rule list_all2_mono) (rule m)
  have 4: "list_all2 (\<lambda>y f. map arg_name (fn_args f) = declared_params (snd y))
           (filter standalone (level_order tree)) (functions_list data)"
    using f by (rule list_all2_mono) (simp add: is_function_info_name)
  have 5: "\<forall>d. subseq (at_depth d None tree) (source_order None tree)"
    by (simp add: at_depth_source_order)
  from 1 2 3 4 5 show ?thesis by (intro conjI)
qed

theorem extraction_order_witness:
  "extract_structure id 4 nested_in_if = Inr nested_in_if_record
   \<and> map (\<lambda>y. decl_name (snd y)) (filter standalone (level_order nested_in_if)) = [''b'', ''a'']"
  using extract_nested_in_if extraction_order [OF extract_nested_in_if]
  by (simp add: nested_in_if_record_def bare_function_def)

text \<open>C7, as the claim states it, fails: a function defined under an \<^verbatim>\<open>if\<close> comes
  first in the source text and last in \<^verbatim>\<open>functions\<close>.\<close>

theorem source_order_counterexample:
  "map_sum id (map fn_name \<circ> functions_list) (extract_structure id 4 nested_in_if) = Inr [''b'', ''a'']
   \<and> map (decl_name \<circ> snd) (filter standalone (source_order None nested_in_if)) = [''a'', ''b'']"
proof -
  have "map fn_name (functions_list nested_in_if_record) = [''b'', ''a'']"
    by (simp add: nested_in_if_record_def bare_function_def)
  then have "map_sum id (map fn_name \<circ> functions_list) (extract_structure id 4 nested_in_if)
               = Inr [''b'', ''a'']"
    by (simp add: extract_nested_in_if)
  moreover have "map (decl_name \<circ> snd) (filter standalone (source_order None nested_in_if))
                   = [''a'', ''b'']"
    by (simp add: nested_in_if_def standalone_def)
  ultimately show ?thesis by (rule conjI)
qed

section \<open>Asynchronous function definitions\<close>

lemma extract_with_async:
  "extract_structure id 5 with_async = Inr with_async_record"
  by (simp add: extract_structure_def walk_def with_async_def with_parent_def plain_args_def
        function_info_def method_info_def with_async_record_def)

lemma iter_child_nodes_erase:
  "iter_child_nodes (erase_async n) = map erase_async (iter_child_nodes n)"
  by (cases n) simp_all

lemma with_parent_erase: "with_parent (erase_async n) = map erase_pair (with_parent n)"
  by (simp add: with_parent_def iter_child_nodes_erase erase_pair_def)

lemma walk_queue_erase: "walk_queue (map erase_pair q) = map erase_pair (walk_queue q)"
proof (induction q rule: walk_queue.induct)
  case 1
  show ?case by simp
next
  case (2 p n todo)
  have "walk_queue (map erase_pair ((p, n) # todo))
          = erase_pair (p, n) # walk_queue (map erase_pair todo @ with_parent (erase_async n))"
    by (simp add: erase_pair_def)
  also have "map erase_pair todo @ with_parent (erase_async n) = map erase_pair (todo @ with_parent n)"
    by (simp add: with_parent_erase)
  finally show ?case using "2.IH" by simp
qed

lemma get_docstring_erase: "get_docstring cleandoc (map erase_async body) = get_docstring cleandoc body"
  by (cases "(cleandoc, body)" rule: get_docstring.cases) simp_all

lemma function_info_erase:
  "function_info cleandoc nm a (map erase_async body) r = function_info cleandoc nm a body r"
  by (simp add: function_info_def get_docstring_erase)

lemma class_methods_erase:
  "class_methods cleandoc (map erase_async body) = class_methods cleandoc body"
proof (induction body)
  case Nil
  show ?case by simp
next
  case (Cons s rest)
  then show ?case
    by (cases s) (simp_all add: method_info_eq function_info_erase split: sum.splits)
qed

lemma parent_is_ClassDef_erase:
  "parent_is_ClassDef (map_option erase_async p) = parent_is_ClassDef p"
proof (cases p)
  case None
  then show ?thesis by simp
next
  case (Some q)
  then show ?thesis by (cases q) simp_all
qed

lemma visit_erase: "visit cleandoc st (erase_pair x) = visit cleandoc st x"
proof -
  obtain p n where x: "x = (p, n)" by (cases x)
  show ?thesis unfolding x erase_pair_def
    by (cases n)
       (simp_all add: class_methods_erase get_docstring_erase function_info_erase
          parent_is_ClassDef_erase)
qed

lemma visit_all_erase: "visit_all cleandoc st (map erase_pair xs) = visit_all cleandoc st xs"
  by (induction xs arbitrary: st) (simp_all add: visit_erase split: sum.splits)

lemma extract_structure_erase:
  "extract_structure cleandoc n (erase_async tree) = extract_structure cleandoc n tree"
proof -
  have "walk (erase_async tree) = map erase_pair (walk tree)"
    using walk_queue_erase [of "[(None, tree)]"] by (simp add: walk_def erase_pair_def)
  then show ?thesis by (simp add: extract_structure_def visit_all_erase)
qed

lemma class_methods_skip_async:
  "class_methods cleandoc (pre @ AsyncFunctionDef nm a body r # post)
     = class_methods cleandoc (pre @ post)"
proof (induction pre)
  case Nil
  show ?case by simp
next
  case (Cons s pre)
  then show ?case by (cases s) (simp_all split: sum.splits)
qed

text \<open>
  C10. The entries of \<^verbatim>\<open>functions\<close> are, one for one, the dictionaries of the
  \<^verbatim>\<open>FunctionDef\<close> nodes whose parent is not a class, and the methods of every class
  those of the \<^verbatim>\<open>FunctionDef\<close> nodes of its body; an \<^verbatim>\<open>AsyncFunctionDef\<close> node is
  neither, the loop leaves the record as it is on such a node, a class body gives the
  same methods with or without it, and the tree without its asynchronous definitions
  gives the same record, hence the same report.
\<close>

theorem async_functions_ignored:
  assumes "extract_structure cleandoc n tree = Inr data"
  shows "list_all2 (\<lambda>y. is_function_info cleandoc (snd y)) (filter standalone (walk tree))
           (functions_list data)
       \<and> list_all2 (\<lambda>y. is_class_info cleandoc (snd y))
           (filter (\<lambda>y. is_ClassDef (snd y)) (walk tree)) (classes_list data)
       \<and> \<not> is_FunctionDef (AsyncFunctionDef nm a body r)
       \<and> \<not> is_function_info cleandoc (AsyncFunctionDef nm a body r) f
       \<and> visit cleandoc st (p, AsyncFunctionDef nm a body r) = Inr st
       \<and> class_methods cleandoc (pre @ AsyncFunctionDef nm a body r # post)
           = class_methods cleandoc (pre @ post)
       \<and> extract_structure cleandoc n (erase_async tree) = Inr data"
  using extract_structure_origin [OF assms] class_methods_skip_async [of cleandoc pre nm a body r post]
    extract_structure_erase [of cleandoc n tree] assms
  by simp

theorem async_functions_ignored_witness:
  "extract_structure id 5 with_async = Inr with_async_record
   \<and> filter standalone (walk with_async) = []
   \<and> extract_structure id 5 (erase_async with_async) = Inr with_async_record"
  using extract_with_async async_functions_ignored [OF extract_with_async]
  by (simp add: with_async_record_def)

end
